theory Spec2Isabelle
  imports Complex_Main
begin

section \<open>Asteroid Blaster: the simulation engine of \<^verbatim>\<open>script.js\<close>\<close>

text \<open>
  The script keeps its whole game in module-level variables that \<^verbatim>\<open>initGame\<close>,
  \<^verbatim>\<open>update\<close>, \<^verbatim>\<open>applyBooster\<close> and \<^verbatim>\<open>loop\<close> mutate. The embedding
  passes them around as one record. Conventions:

  \<^item> a JavaScript number is a \<^typ>\<open>real\<close>: arithmetic is exact, there is no rounding
    and no infinity. Where a sum or a product of doubles rounds, the script can land on the
    other side of a comparison, of \<^verbatim>\<open>Math.floor\<close> or of \<^verbatim>\<open>Math.ceil\<close>: the timer of
    line 181 after four ticks of 0.4 s is 0 here and about \<open>1.1e-16\<close> in the script, and
    \<^verbatim>\<open>Math.floor(0.3333333333333333 * 3)\<close> is 1 in the script where the floor of the
    exact product is 0. The concrete values below stay away from such boundaries or fall
    on the same side in both. The counters \<^verbatim>\<open>hp\<close> and \<^verbatim>\<open>score\<close>, which only ever
    hold integers, are \<^typ>\<open>int\<close>;
  \<^item> a variable that the script may leave \<^verbatim>\<open>undefined\<close> (or turn into \<^verbatim>\<open>NaN\<close>
    by computing with \<^verbatim>\<open>undefined\<close>) is an \<^typ>\<open>'a option\<close>; arithmetic on
    \<^const>\<open>None\<close> gives \<^const>\<open>None\<close> and every comparison with it is false, as
    JavaScript has it for \<^verbatim>\<open>NaN\<close>;
  \<^item> reading a property of \<^verbatim>\<open>undefined\<close> throws a \<^verbatim>\<open>TypeError\<close>; a function that
    can throw returns an \<open>outcome\<close>, which carries the variables as they were at the throw;
  \<^item> the browser is an input: the pressed keys and touch zones, the readings of
    \<^verbatim>\<open>performance.now()\<close> and the successive results of \<^verbatim>\<open>Math.random()\<close> are fields
    of the record \<open>input\<close> that each tick receives; the canvas size is the record
    \<open>canvas\<close>. A draw may be any real here; \<^verbatim>\<open>Math.random()\<close> returns values in
    \<open>[0, 1)\<close>, and a theorem that depends on the draws assumes that range;
  \<^item> what the script shows to the user is recorded in the state: the text of the score
    element, the list of \<^verbatim>\<open>alert\<close>s raised (each by the score it shows), and counters
    of the calls of \<^verbatim>\<open>update\<close> and \<^verbatim>\<open>draw\<close> that \<^verbatim>\<open>loop\<close> makes and of the frame
    callbacks waiting in the browser. \<^verbatim>\<open>draw\<close> itself, which reads the variables and
    paints them, is not modelled further;
  \<^item> an array is a list; the loops of lines 202 and 241 read it by index, from the last
    index down, and every index they read is inside the array (\<open>findHit_Some\<close>,
    \<open>asteroidBody_length\<close>, \<open>boosterBody_length\<close>).
\<close>

subsection \<open>Entities and variables\<close>

text \<open>\<^verbatim>\<open>player = { x, y, w, h }\<close> (line 79).\<close>

record player_t =
  p_x :: real
  p_y :: real
  p_w :: real
  p_h :: real

text \<open>\<^verbatim>\<open>{ x, y, vy }\<close> (line 170).\<close>

record bullet =
  b_x :: real
  b_y :: real
  b_vy :: real

text \<open>\<^verbatim>\<open>{ x, y, vy, rot, rSpeed, points, radius, hp }\<close> (lines 129-138).\<close>

record asteroid =
  a_x :: real
  a_y :: real
  a_vy :: real
  a_rot :: real
  a_rSpeed :: real
  a_points :: "(real \<times> real) list"
  a_radius :: real
  a_hp :: int

text \<open>\<^verbatim>\<open>{ x, y, vy, type, size }\<close> (lines 148-154). The type is \<^const>\<open>None\<close> when
  \<^verbatim>\<open>types[...]\<close> is read outside the three tags.\<close>

record booster =
  bo_x :: real
  bo_y :: real
  bo_vy :: real
  bo_type :: "string option"
  bo_size :: real

text \<open>The canvas element \<^verbatim>\<open>c\<close>: only its size is read.\<close>

record canvas =
  width :: real
  height :: real

text \<open>What one tick reads from the browser: \<^verbatim>\<open>keys[...]\<close> and the touch flags
  (lines 161, 163, 168), the two readings of \<^verbatim>\<open>performance.now()\<close> in \<^verbatim>\<open>update\<close>
  (lines 168 and 172), and \<open>random k\<close>, the result of the \<open>k\<close>-th call of
  \<^verbatim>\<open>Math.random()\<close> within the tick, counted from 0.\<close>

record input =
  keyArrowLeft :: bool
  keyA :: bool
  touchLeft :: bool
  keyArrowRight :: bool
  keyD :: bool
  touchRight :: bool
  keySpace :: bool
  keyZ :: bool
  touchFire :: bool
  nowTest :: real
  nowShot :: real
  random :: "nat \<Rightarrow> real"

text \<open>The variables of lines 34-40 and 330 (\<^verbatim>\<open>last\<close> is \<open>last_ts\<close> here), followed by the
  observable effects: \<open>scoreEl\<close> is the number shown in the score element, \<open>alerts\<close> the scores
  of the alerts raised so far, oldest first, \<open>updates\<close> and \<open>draws\<close> count the calls of
  \<^verbatim>\<open>update\<close> and \<^verbatim>\<open>draw\<close> made by \<^verbatim>\<open>loop\<close>, and \<open>rafQueue\<close> is the number of
  \<^verbatim>\<open>loop\<close> callbacks registered with \<^verbatim>\<open>requestAnimationFrame\<close> and not yet run.\<close>

record state =
  player :: player_t
  bullets :: "bullet list"
  asteroids :: "asteroid list"
  boosters :: "booster list"
  score :: int
  running :: bool
  spawn :: "real option"
  lastShot :: real
  fireRate :: "real option"
  spawnRate :: "real option"
  asteroidSpeed :: "(real \<times> real) option"
  shieldActive :: bool
  shieldTimer :: real
  last_ts :: real
  scoreEl :: int
  alerts :: "int list"
  updates :: nat
  draws :: nat
  rafQueue :: nat

datatype js_error = TypeError

datatype outcome = Ok state | Throw js_error state

fun stateOf :: "outcome \<Rightarrow> state" where
  "stateOf (Ok s) = s"
| "stateOf (Throw e s) = s"

fun isOk :: "outcome \<Rightarrow> bool" where
  "isOk (Ok s) = True"
| "isOk (Throw e s) = False"

subsection \<open>The difficulty table\<close>

record settings =
  set_asteroidSpeed :: "real \<times> real"
  set_spawnRate :: real
  set_fireRate :: real

text \<open>The value of \<^verbatim>\<open>difficulty[diff]\<close>. The table is an object literal, so a name that is
  not one of its three keys is looked up in \<^verbatim>\<open>Object.prototype\<close>: the twelve names below
  yield a function or an object none of whose properties is a setting; every other name
  yields \<^verbatim>\<open>undefined\<close>.\<close>

datatype lookup = Undefined | Preset settings | Inherited

definition objectPrototypeNames :: "string list" where
  "objectPrototypeNames =
     [''constructor'', ''hasOwnProperty'', ''isPrototypeOf'', ''propertyIsEnumerable'',
      ''toLocaleString'', ''toString'', ''valueOf'', ''__proto__'',
      ''__defineGetter__'', ''__defineSetter__'', ''__lookupGetter__'', ''__lookupSetter__'']"

definition difficulty :: "string \<Rightarrow> lookup" where
  "difficulty diff =
     (if diff = ''easy'' then
        Preset \<lparr>set_asteroidSpeed = (40, 60), set_spawnRate = 1.6, set_fireRate = 250\<rparr>
      else if diff = ''medium'' then
        Preset \<lparr>set_asteroidSpeed = (60, 90), set_spawnRate = 1.0, set_fireRate = 200\<rparr>
      else if diff = ''hard'' then
        Preset \<lparr>set_asteroidSpeed = (90, 130), set_spawnRate = 0.7, set_fireRate = 150\<rparr>
      else if diff \<in> set objectPrototypeNames then Inherited
      else Undefined)"

subsection \<open>Spawning\<close>

text \<open>\<^verbatim>\<open>sides = 6 + Math.floor(Math.random() * 4)\<close> (line 109), from the first draw.\<close>

definition sidesOf :: "(nat \<Rightarrow> real) \<Rightarrow> int" where
  "sidesOf rnd = 6 + \<lfloor>rnd 0 * 4\<rfloor>"

text \<open>\<^verbatim>\<open>spawnAsteroid\<close> (lines 107-139). Draws, in the order the script makes them: 0 the
  sides, 1 the radius, one per polygon point, then \<^verbatim>\<open>x\<close>, \<^verbatim>\<open>vy\<close>, \<^verbatim>\<open>rot\<close> and
  \<^verbatim>\<open>rSpeed\<close>. The object literal reads \<^verbatim>\<open>asteroidSpeed[0]\<close> after the draw of \<^verbatim>\<open>x\<close>;
  with \<^verbatim>\<open>asteroidSpeed\<close> undefined that read throws before anything is pushed.\<close>

definition spawnAsteroid :: "(nat \<Rightarrow> real) \<Rightarrow> canvas \<Rightarrow> state \<Rightarrow> outcome" where
  "spawnAsteroid rnd c s =
     (let sides = sidesOf rnd;
          radius = 15 + rnd 1 * 30;
          points = map (\<lambda>i. let angle = (real i / real_of_int sides) * pi * 2;
                                 r = radius * (0.7 + rnd (2 + i) * 0.6)
                             in (cos angle * r, sin angle * r)) [0..<nat sides];
          k = 2 + nat sides
      in case asteroidSpeed s of
           None \<Rightarrow> Throw TypeError s
         | Some (lo, hi) \<Rightarrow>
             Ok (s\<lparr>asteroids := asteroids s @
                   [\<lparr>a_x = rnd k * width c,
                     a_y = - 40,
                     a_vy = lo + rnd (k + 1) * (hi - lo),
                     a_rot = rnd (k + 2) * pi * 2,
                     a_rSpeed = (rnd (k + 3) - 0.5) * 1.5,
                     a_points = points,
                     a_radius = radius,
                     a_hp = \<lceil>radius / 10\<rceil>\<rparr>]\<rparr>))"

text \<open>\<^verbatim>\<open>types[Math.floor(r * types.length)]\<close> (lines 146, 152).\<close>

definition typeAt :: "real \<Rightarrow> string option" where
  "typeAt r =
     (let i = \<lfloor>r * 3\<rfloor>
      in if i = 0 then Some ''fireRate''
         else if i = 1 then Some ''shield''
         else if i = 2 then Some ''score''
         else None)"

text \<open>\<^verbatim>\<open>spawnBooster\<close> (lines 143-155); \<open>k\<close> is the index of its first draw.\<close>

definition spawnBooster :: "(nat \<Rightarrow> real) \<Rightarrow> nat \<Rightarrow> canvas \<Rightarrow> state \<Rightarrow> state" where
  "spawnBooster rnd k c s =
     s\<lparr>boosters := boosters s @
        [\<lparr>bo_x = 30 + rnd k * (width c - 60),
          bo_y = - 20,
          bo_vy = 100,
          bo_type = typeAt (rnd (k + 1)),
          bo_size = 12\<rparr>]\<rparr>"

subsection \<open>The stages of \<^verbatim>\<open>update\<close>\<close>

text \<open>Lines 161-165: the ship moves and is clamped.\<close>

definition movePlayer :: "real \<Rightarrow> input \<Rightarrow> canvas \<Rightarrow> state \<Rightarrow> state" where
  "movePlayer dt inp c s =
     (let p = player s;
          x1 = (if keyArrowLeft inp \<or> keyA inp \<or> touchLeft inp
                then p_x p - 220 * dt else p_x p);
          x2 = (if keyArrowRight inp \<or> keyD inp \<or> touchRight inp
                then x1 + 220 * dt else x1)
      in s\<lparr>player := p\<lparr>p_x := max 10 (min (width c - 10 - p_w p) x2)\<rparr>\<rparr>)"

text \<open>\<^verbatim>\<open>performance.now() - lastShot > fireRate\<close>: false when \<^verbatim>\<open>fireRate\<close> is no number.\<close>

definition exceeds :: "real \<Rightarrow> real option \<Rightarrow> bool" where
  "exceeds t limit = (case limit of None \<Rightarrow> False | Some f \<Rightarrow> t > f)"

text \<open>Lines 168-173: firing, limited by the fire interval.\<close>

definition fire :: "input \<Rightarrow> state \<Rightarrow> state" where
  "fire inp s =
     (if (keySpace inp \<or> keyZ inp \<or> touchFire inp)
         \<and> exceeds (nowTest inp - lastShot s) (fireRate s)
      then s\<lparr>bullets := bullets s @
                 [\<lparr>b_x = p_x (player s) + p_w (player s) / 2,
                   b_y = p_y (player s),
                   b_vy = - 400\<rparr>],
             lastShot := nowShot inp\<rparr>
      else s)"

text \<open>Lines 176-178.\<close>

definition moveBullets :: "real \<Rightarrow> state \<Rightarrow> state" where
  "moveBullets dt s =
     s\<lparr>bullets := filter (\<lambda>b. b_y b > - 10)
                      (map (\<lambda>b. b\<lparr>b_y := b_y b + b_vy b * dt\<rparr>) (bullets s))\<rparr>"

text \<open>\<^verbatim>\<open>spawn <= 0\<close>: false when \<^verbatim>\<open>spawn\<close> is no number.\<close>

definition expired :: "real option \<Rightarrow> bool" where
  "expired t = (case t of None \<Rightarrow> False | Some v \<Rightarrow> v \<le> 0)"

text \<open>Lines 181-188: the spawn timer. After \<^verbatim>\<open>spawnAsteroid\<close> has made its
  \<open>6 + sides\<close> draws, the next draw decides on a booster, whose own two draws follow.\<close>

definition spawnStage :: "real \<Rightarrow> input \<Rightarrow> canvas \<Rightarrow> state \<Rightarrow> outcome" where
  "spawnStage dt inp c s =
     (let s1 = s\<lparr>spawn := map_option (\<lambda>v. v - dt) (spawn s)\<rparr>
      in if expired (spawn s1) then
           (case spawnAsteroid (random inp) c (s1\<lparr>spawn := spawnRate s1\<rparr>) of
              Throw e t \<Rightarrow> Throw e t
            | Ok s2 \<Rightarrow>
                (let k = 6 + nat (sidesOf (random inp))
                 in if random inp k < 0.2
                    then Ok (spawnBooster (random inp) (k + 1) c s2)
                    else Ok s2))
         else Ok s1)"

text \<open>Lines 191-193.\<close>

definition moveAsteroids :: "real \<Rightarrow> canvas \<Rightarrow> state \<Rightarrow> state" where
  "moveAsteroids dt c s =
     s\<lparr>asteroids := filter (\<lambda>a. a_y a < height c + 40)
                        (map (\<lambda>a. a\<lparr>a_y := a_y a + a_vy a * dt,
                                     a_rot := a_rot a + a_rSpeed a * dt\<rparr>) (asteroids s))\<rparr>"

text \<open>Lines 196-198.\<close>

definition moveBoosters :: "real \<Rightarrow> canvas \<Rightarrow> state \<Rightarrow> state" where
  "moveBoosters dt c s =
     s\<lparr>boosters := filter (\<lambda>b. bo_y b < height c + 20)
                       (map (\<lambda>b. b\<lparr>bo_y := bo_y b + bo_vy b * dt\<rparr>) (boosters s))\<rparr>"

subsection \<open>Bullets against asteroids, asteroids against the ship\<close>

text \<open>\<^verbatim>\<open>xs.splice(i, 1)\<close>.\<close>

definition splice1 :: "nat \<Rightarrow> 'a list \<Rightarrow> 'a list" where
  "splice1 i xs = take i xs @ drop (Suc i) xs"

text \<open>The test of line 210.\<close>

definition hit :: "asteroid \<Rightarrow> bullet \<Rightarrow> bool" where
  "hit a b =
     (let dx = a_x a - b_x b; dy = a_y a - b_y b
      in dx * dx + dy * dy < a_radius a * a_radius a * 0.6)"

text \<open>The scan of lines 205-227 for the bullet to remove: \<open>findHit a bs n\<close> looks at
  \<open>bs ! (n - 1)\<close>, ..., \<open>bs ! 0\<close> in this order and stops at the first hit. The script
  starts it at \<open>n = length bs\<close>.\<close>

fun findHit :: "asteroid \<Rightarrow> bullet list \<Rightarrow> nat \<Rightarrow> nat option" where
  "findHit a bs 0 = None"
| "findHit a bs (Suc j) = (if hit a (bs ! j) then Some j else findHit a bs j)"

text \<open>Lines 205-227 for the asteroid at index \<open>i\<close>: the pair is the variables after the
  bullet loop and the object \<^verbatim>\<open>a\<close>, which the script keeps in hand also when it has just
  removed it from the array.\<close>

definition bulletLoop :: "nat \<Rightarrow> state \<Rightarrow> state \<times> asteroid" where
  "bulletLoop i s =
     (let a = asteroids s ! i
      in case findHit a (bullets s) (length (bullets s)) of
           None \<Rightarrow> (s, a)
         | Some j \<Rightarrow>
             (let a' = a\<lparr>a_hp := a_hp a - 1\<rparr>;
                  s' = s\<lparr>bullets := splice1 j (bullets s),
                         asteroids := (asteroids s)[i := a']\<rparr>
              in if a_hp a' \<le> 0
                 then (s'\<lparr>asteroids := splice1 i (asteroids s'),
                          score := score s' + 10,
                          scoreEl := score s' + 10\<rparr>, a')
                 else (s', a')))"

text \<open>The condition of line 231.\<close>

definition overlapsShip :: "asteroid \<Rightarrow> player_t \<Rightarrow> bool" where
  "overlapsShip a p =
     (\<bar>a_x a - (p_x p + p_w p / 2)\<bar> < a_radius a \<and> \<bar>a_y a - (p_y p + p_h p / 2)\<bar> < a_radius a)"

text \<open>Lines 231-236.\<close>

definition shipCheck :: "asteroid \<Rightarrow> state \<Rightarrow> state" where
  "shipCheck a s =
     (if \<not> shieldActive s \<and> overlapsShip a (player s)
      then s\<lparr>running := False, alerts := alerts s @ [score s]\<rparr>
      else s)"

text \<open>The body of the loop of lines 202-237 at index \<open>i\<close>.\<close>

definition asteroidBody :: "nat \<Rightarrow> state \<Rightarrow> state" where
  "asteroidBody i s = (case bulletLoop i s of (s1, a) \<Rightarrow> shipCheck a s1)"

text \<open>The loop of lines 202-237: \<open>asteroidLoop n\<close> runs the body at \<open>n - 1\<close>, ..., \<open>0\<close>.\<close>

fun asteroidLoop :: "nat \<Rightarrow> state \<Rightarrow> state" where
  "asteroidLoop 0 s = s"
| "asteroidLoop (Suc i) s = asteroidLoop i (asteroidBody i s)"

definition collide :: "state \<Rightarrow> state" where
  "collide s = asteroidLoop (length (asteroids s)) s"

subsection \<open>Boosters\<close>

text \<open>\<^verbatim>\<open>applyBooster\<close> (lines 260-267): three tests in a row.\<close>

definition applyBooster :: "string \<Rightarrow> state \<Rightarrow> state" where
  "applyBooster type s =
     (let s1 = (if type = ''fireRate''
                then s\<lparr>fireRate := map_option (\<lambda>f. max 80 (f - 80)) (fireRate s)\<rparr> else s);
          s2 = (if type = ''shield''
                then s1\<lparr>shieldActive := True, shieldTimer := 5\<rparr> else s1)
      in if type = ''score''
         then s2\<lparr>score := score s2 + 50, scoreEl := score s2 + 50\<rparr> else s2)"

text \<open>The body of the loop of lines 241-250 at index \<open>i\<close>. A booster whose type is
  \<^verbatim>\<open>undefined\<close> passes none of the three tests of \<^verbatim>\<open>applyBooster\<close>.\<close>

definition boosterBody :: "nat \<Rightarrow> state \<Rightarrow> state" where
  "boosterBody i s =
     (let b = boosters s ! i; p = player s
      in if \<bar>bo_x b - (p_x p + p_w p / 2)\<bar> < 20 \<and> \<bar>bo_y b - (p_y p + p_h p / 2)\<bar> < 20
         then (let s1 = (case bo_type b of None \<Rightarrow> s | Some t \<Rightarrow> applyBooster t s)
               in s1\<lparr>boosters := splice1 i (boosters s1)\<rparr>)
         else s)"

fun boosterLoop :: "nat \<Rightarrow> state \<Rightarrow> state" where
  "boosterLoop 0 s = s"
| "boosterLoop (Suc i) s = boosterLoop i (boosterBody i s)"

definition pickup :: "state \<Rightarrow> state" where
  "pickup s = boosterLoop (length (boosters s)) s"

text \<open>Lines 253-256.\<close>

definition shieldDecay :: "real \<Rightarrow> state \<Rightarrow> state" where
  "shieldDecay dt s =
     (if shieldActive s
      then (let s1 = s\<lparr>shieldTimer := shieldTimer s - dt\<rparr>
            in if shieldTimer s1 \<le> 0 then s1\<lparr>shieldActive := False\<rparr> else s1)
      else s)"

subsection \<open>\<^verbatim>\<open>update\<close>, \<^verbatim>\<open>loop\<close> and \<^verbatim>\<open>initGame\<close>\<close>

text \<open>The variables as the asteroid loop of line 202 finds them.\<close>

definition beforeCollisions :: "real \<Rightarrow> input \<Rightarrow> canvas \<Rightarrow> state \<Rightarrow> outcome" where
  "beforeCollisions dt inp c s =
     (case spawnStage dt inp c (moveBullets dt (fire inp (movePlayer dt inp c s))) of
        Throw e t \<Rightarrow> Throw e t
      | Ok s1 \<Rightarrow> Ok (moveBoosters dt c (moveAsteroids dt c s1)))"

text \<open>\<^verbatim>\<open>update(dt)\<close> (lines 159-257).\<close>

definition update :: "real \<Rightarrow> input \<Rightarrow> canvas \<Rightarrow> state \<Rightarrow> outcome" where
  "update dt inp c s =
     (case beforeCollisions dt inp c s of
        Throw e t \<Rightarrow> Throw e t
      | Ok s1 \<Rightarrow> Ok (shieldDecay dt (pickup (collide s1))))"

text \<open>\<^verbatim>\<open>loop(now)\<close> (lines 332-343). \<^verbatim>\<open>draw\<close> only reads the variables; it is counted.
  When \<^verbatim>\<open>update\<close> throws, neither \<^verbatim>\<open>draw\<close> nor \<^verbatim>\<open>requestAnimationFrame\<close> is
  reached.\<close>

definition loop :: "real \<Rightarrow> input \<Rightarrow> canvas \<Rightarrow> state \<Rightarrow> outcome" where
  "loop now inp c s =
     (let dt = min 0.04 ((now - last_ts s) / 1000);
          s1 = s\<lparr>last_ts := now\<rparr>
      in if running s1
         then (case update dt inp c (s1\<lparr>updates := updates s1 + 1\<rparr>) of
                 Throw e t \<Rightarrow> Throw e t
               | Ok s2 \<Rightarrow> Ok (s2\<lparr>draws := draws s2 + 1, rafQueue := rafQueue s2 + 1\<rparr>))
         else Ok s1)"

text \<open>\<^verbatim>\<open>initGame(diff)\<close> (lines 77-103); \<open>now\<close> is the reading of
  \<^verbatim>\<open>performance.now()\<close> of line 102 and \<open>inp\<close> what the first tick reads.
  \<^verbatim>\<open>set.fireRate\<close> throws when \<^verbatim>\<open>set\<close> is \<^verbatim>\<open>undefined\<close>, and is itself
  \<^verbatim>\<open>undefined\<close> when \<^verbatim>\<open>set\<close> is a member of \<^verbatim>\<open>Object.prototype\<close>.\<close>

definition initGame :: "string \<Rightarrow> real \<Rightarrow> input \<Rightarrow> canvas \<Rightarrow> state \<Rightarrow> outcome" where
  "initGame diff now inp c s =
     (let s1 = s\<lparr>player := \<lparr>p_x = width c / 2, p_y = height c - 60, p_w = 36, p_h = 28\<rparr>,
                 bullets := [], asteroids := [], boosters := [],
                 score := 0, spawn := Some 0, lastShot := 0,
                 shieldActive := False, shieldTimer := 0,
                 scoreEl := 0\<rparr>
      in case difficulty diff of
           Undefined \<Rightarrow> Throw TypeError s1
         | Preset st \<Rightarrow>
             loop now inp c
               (s1\<lparr>fireRate := Some (set_fireRate st),
                   spawnRate := Some (set_spawnRate st),
                   asteroidSpeed := Some (set_asteroidSpeed st),
                   running := True\<rparr>)
         | Inherited \<Rightarrow>
             loop now inp c
               (s1\<lparr>fireRate := None, spawnRate := None, asteroidSpeed := None,
                   running := True\<rparr>))"

subsection \<open>The browser's side: clicks and animation frames\<close>

text \<open>The listeners of lines 347-364 and the browser's frame. A click on Start or Restart
  carries the selected difficulty, the clock reading and what the first tick reads. At an
  animation frame the browser takes the callbacks registered so far and runs each with the
  frame's timestamp; a callback registered meanwhile waits for the next frame. An exception
  that leaves a listener or a callback is reported by the browser and the variables stay
  as they were at the throw.\<close>

datatype event =
    ClickStart string real input
  | ClickHome
  | ClickRestart string real input
  | AnimationFrame real input

fun runCallbacks :: "nat \<Rightarrow> real \<Rightarrow> input \<Rightarrow> canvas \<Rightarrow> state \<Rightarrow> state" where
  "runCallbacks 0 now inp c s = s"
| "runCallbacks (Suc n) now inp c s = runCallbacks n now inp c (stateOf (loop now inp c s))"

fun handle :: "canvas \<Rightarrow> event \<Rightarrow> state \<Rightarrow> state" where
  "handle c (ClickStart diff now inp) s = stateOf (initGame diff now inp c s)"
| "handle c ClickHome s = s\<lparr>running := False\<rparr>"
| "handle c (ClickRestart diff now inp) s =
     stateOf (initGame diff now inp c (s\<lparr>running := False\<rparr>))"
| "handle c (AnimationFrame now inp) s =
     runCallbacks (rafQueue s) now inp c (s\<lparr>rafQueue := 0\<rparr>)"

text \<open>A sequence of events, oldest first.\<close>

fun handleAll :: "canvas \<Rightarrow> event list \<Rightarrow> state \<Rightarrow> state" where
  "handleAll c [] s = s"
| "handleAll c (e # es) s = handleAll c es (handle c e s)"

text \<open>A sequence of calls of \<^verbatim>\<open>update\<close>, each with its \<open>dt\<close> and its input; it stops at
  the first call that throws.\<close>

fun steps :: "(real \<times> input) list \<Rightarrow> canvas \<Rightarrow> state \<Rightarrow> outcome" where
  "steps [] c s = Ok s"
| "steps ((dt, inp) # ts) c s =
     (case update dt inp c s of Throw e t \<Rightarrow> Throw e t | Ok s' \<Rightarrow> steps ts c s')"

subsection \<open>Concrete values\<close>

text \<open>The values at which the theorems below are evaluated: a canvas of 480 by 640 pixels;
  a tick during which nothing is pressed and every random draw is 0; the variables of a run
  of difficulty \<^verbatim>\<open>easy\<close> in progress, with the ship in the middle.\<close>

definition demoCanvas :: canvas where
  "demoCanvas = \<lparr>width = 480, height = 640\<rparr>"

definition noKeys :: input where
  "noKeys = \<lparr>keyArrowLeft = False, keyA = False, touchLeft = False,
             keyArrowRight = False, keyD = False, touchRight = False,
             keySpace = False, keyZ = False, touchFire = False,
             nowTest = 0, nowShot = 0, random = (\<lambda>k. 0)\<rparr>"

definition midGame :: state where
  "midGame = \<lparr>player = \<lparr>p_x = 222, p_y = 580, p_w = 36, p_h = 28\<rparr>,
      bullets = [], asteroids = [], boosters = [],
      score = 0, running = True, spawn = Some 1, lastShot = 0,
      fireRate = Some 250, spawnRate = Some 1.6, asteroidSpeed = Some (40, 60),
      shieldActive = False, shieldTimer = 0, last_ts = 0,
      scoreEl = 0, alerts = [], updates = 1, draws = 1, rafQueue = 1\<rparr>"

text \<open>The variables when the script has been loaded at time \<open>t0\<close> and nothing has been clicked.
  The script leaves the entities, the score, the timers and the settings \<^verbatim>\<open>undefined\<close>
  until \<^verbatim>\<open>initGame\<close> assigns them; entities, score and \<^verbatim>\<open>lastShot\<close> hold placeholders
  here that \<^verbatim>\<open>initGame\<close> overwrites before anything reads them. \<^verbatim>\<open>running\<close> is
  \<^verbatim>\<open>undefined\<close>, which line 338 reads as false.\<close>

definition pageLoad :: "real \<Rightarrow> state" where
  "pageLoad t0 = \<lparr>player = \<lparr>p_x = 0, p_y = 0, p_w = 0, p_h = 0\<rparr>,
      bullets = [], asteroids = [], boosters = [],
      score = 0, running = False, spawn = None, lastShot = 0,
      fireRate = None, spawnRate = None, asteroidSpeed = None,
      shieldActive = False, shieldTimer = 0, last_ts = t0,
      scoreEl = 0, alerts = [], updates = 0, draws = 0, rafQueue = 0\<rparr>"

text \<open>An asteroid of radius 20 with one hit-point left, its centre 5 pixels above the nose
  of the ship of \<open>midGame\<close> and within 20 pixels of the ship's centre \<open>(240, 594)\<close> on both
  axes; a tick in which the space key is held and the fire interval has elapsed; a bullet
  where one fired from that ship is after a tick of 20 ms.\<close>

definition rock :: asteroid where
  "rock = \<lparr>a_x = 240, a_y = 575, a_vy = 50, a_rot = 0, a_rSpeed = 0,
           a_points = [(20, 0), (10, 17), (- 10, 17), (- 20, 0), (- 10, - 17), (10, - 17)],
           a_radius = 20, a_hp = 1\<rparr>"

definition pressFire :: input where
  "pressFire = noKeys\<lparr>keySpace := True, nowTest := 1000, nowShot := 1000\<rparr>"

definition shot :: bullet where
  "shot = \<lparr>b_x = 240, b_y = 572, b_vy = - 400\<rparr>"

text \<open>A second, larger asteroid far from the ship and from every bullet; a bullet far from
  both asteroids; a pass that starts with both asteroids in the array, \<open>rock\<close> first, and both
  bullets in flight, only the first of them inside the hit disc of \<open>rock\<close>; four turns of
  \<open>rock\<close>, at the third of which it sits between two others.\<close>

definition far :: asteroid where
  "far = \<lparr>a_x = 60, a_y = 100, a_vy = 45, a_rot = 0, a_rSpeed = 1/2,
          a_points = [(30, 0), (15, 26), (- 15, 26), (- 30, 0), (- 15, - 26), (15, - 26)],
          a_radius = 30, a_hp = 3\<rparr>"

definition stray :: bullet where
  "stray = \<lparr>b_x = 400, b_y = 300, b_vy = - 400\<rparr>"

definition duel :: state where
  "duel = midGame\<lparr>asteroids := [rock, far], bullets := [shot, stray]\<rparr>"

definition rockTurns :: "(state \<times> nat) list" where
  "rockTurns =
     [(duel, 0),
      (duel\<lparr>bullets := [stray]\<rparr>, 0),
      (midGame\<lparr>asteroids := [far, rock\<lparr>a_y := 580\<rparr>, far\<lparr>a_x := 300\<rparr>], bullets := [stray, shot]\<rparr>, 1),
      (duel, 0)]"

subsection \<open>Ticks without input\<close>


subsection \<open>The turns of one asteroid\<close>




section \<open>What each stage leaves alone\<close>

lemma movePlayer_fields:
  "bullets (movePlayer dt inp c s) = bullets s"
  "asteroids (movePlayer dt inp c s) = asteroids s"
  "boosters (movePlayer dt inp c s) = boosters s"
  "score (movePlayer dt inp c s) = score s"
  "running (movePlayer dt inp c s) = running s"
  "spawn (movePlayer dt inp c s) = spawn s"
  "lastShot (movePlayer dt inp c s) = lastShot s"
  "fireRate (movePlayer dt inp c s) = fireRate s"
  "spawnRate (movePlayer dt inp c s) = spawnRate s"
  "asteroidSpeed (movePlayer dt inp c s) = asteroidSpeed s"
  "shieldActive (movePlayer dt inp c s) = shieldActive s"
  "alerts (movePlayer dt inp c s) = alerts s"
  by (simp_all add: movePlayer_def Let_def)

lemma fire_fields:
  "player (fire inp s) = player s"
  "asteroids (fire inp s) = asteroids s"
  "boosters (fire inp s) = boosters s"
  "score (fire inp s) = score s"
  "running (fire inp s) = running s"
  "spawn (fire inp s) = spawn s"
  "fireRate (fire inp s) = fireRate s"
  "spawnRate (fire inp s) = spawnRate s"
  "asteroidSpeed (fire inp s) = asteroidSpeed s"
  "shieldActive (fire inp s) = shieldActive s"
  "alerts (fire inp s) = alerts s"
  by (simp_all add: fire_def)

lemma moveBullets_fields:
  "player (moveBullets dt s) = player s"
  "asteroids (moveBullets dt s) = asteroids s"
  "boosters (moveBullets dt s) = boosters s"
  "score (moveBullets dt s) = score s"
  "running (moveBullets dt s) = running s"
  "spawn (moveBullets dt s) = spawn s"
  "fireRate (moveBullets dt s) = fireRate s"
  "spawnRate (moveBullets dt s) = spawnRate s"
  "asteroidSpeed (moveBullets dt s) = asteroidSpeed s"
  "shieldActive (moveBullets dt s) = shieldActive s"
  "alerts (moveBullets dt s) = alerts s"
  by (simp_all add: moveBullets_def)

lemma spawnAsteroid_fields:
  "player (stateOf (spawnAsteroid rnd c s)) = player s"
  "bullets (stateOf (spawnAsteroid rnd c s)) = bullets s"
  "boosters (stateOf (spawnAsteroid rnd c s)) = boosters s"
  "score (stateOf (spawnAsteroid rnd c s)) = score s"
  "running (stateOf (spawnAsteroid rnd c s)) = running s"
  "spawn (stateOf (spawnAsteroid rnd c s)) = spawn s"
  "fireRate (stateOf (spawnAsteroid rnd c s)) = fireRate s"
  "spawnRate (stateOf (spawnAsteroid rnd c s)) = spawnRate s"
  "asteroidSpeed (stateOf (spawnAsteroid rnd c s)) = asteroidSpeed s"
  "shieldActive (stateOf (spawnAsteroid rnd c s)) = shieldActive s"
  "alerts (stateOf (spawnAsteroid rnd c s)) = alerts s"
  by (simp_all add: spawnAsteroid_def Let_def split: option.split prod.split)

lemma spawnStage_fields:
  "player (stateOf (spawnStage dt inp c s)) = player s"
  "bullets (stateOf (spawnStage dt inp c s)) = bullets s"
  "score (stateOf (spawnStage dt inp c s)) = score s"
  "running (stateOf (spawnStage dt inp c s)) = running s"
  "fireRate (stateOf (spawnStage dt inp c s)) = fireRate s"
  "spawnRate (stateOf (spawnStage dt inp c s)) = spawnRate s"
  "asteroidSpeed (stateOf (spawnStage dt inp c s)) = asteroidSpeed s"
  "shieldActive (stateOf (spawnStage dt inp c s)) = shieldActive s"
  "alerts (stateOf (spawnStage dt inp c s)) = alerts s"
proof -
  let ?t = "s\<lparr>spawn := map_option (\<lambda>v. v - dt) (spawn s)\<rparr>\<lparr>spawn := spawnRate s\<rparr>"
  note f = spawnAsteroid_fields[of "random inp" c ?t]
  show "player (stateOf (spawnStage dt inp c s)) = player s"
    using f(1) by (cases "spawnAsteroid (random inp) c ?t") (simp_all add: spawnStage_def Let_def spawnBooster_def)
  show "bullets (stateOf (spawnStage dt inp c s)) = bullets s"
    using f(2) by (cases "spawnAsteroid (random inp) c ?t") (simp_all add: spawnStage_def Let_def spawnBooster_def)
  show "score (stateOf (spawnStage dt inp c s)) = score s"
    using f(4) by (cases "spawnAsteroid (random inp) c ?t") (simp_all add: spawnStage_def Let_def spawnBooster_def)
  show "running (stateOf (spawnStage dt inp c s)) = running s"
    using f(5) by (cases "spawnAsteroid (random inp) c ?t") (simp_all add: spawnStage_def Let_def spawnBooster_def)
  show "fireRate (stateOf (spawnStage dt inp c s)) = fireRate s"
    using f(7) by (cases "spawnAsteroid (random inp) c ?t") (simp_all add: spawnStage_def Let_def spawnBooster_def)
  show "spawnRate (stateOf (spawnStage dt inp c s)) = spawnRate s"
    using f(8) by (cases "spawnAsteroid (random inp) c ?t") (simp_all add: spawnStage_def Let_def spawnBooster_def)
  show "asteroidSpeed (stateOf (spawnStage dt inp c s)) = asteroidSpeed s"
    using f(9) by (cases "spawnAsteroid (random inp) c ?t") (simp_all add: spawnStage_def Let_def spawnBooster_def)
  show "shieldActive (stateOf (spawnStage dt inp c s)) = shieldActive s"
    using f(10) by (cases "spawnAsteroid (random inp) c ?t") (simp_all add: spawnStage_def Let_def spawnBooster_def)
  show "alerts (stateOf (spawnStage dt inp c s)) = alerts s"
    using f(11) by (cases "spawnAsteroid (random inp) c ?t") (simp_all add: spawnStage_def Let_def spawnBooster_def)
qed

lemma moveAsteroids_fields:
  "player (moveAsteroids dt c s) = player s"
  "bullets (moveAsteroids dt c s) = bullets s"
  "boosters (moveAsteroids dt c s) = boosters s"
  "score (moveAsteroids dt c s) = score s"
  "running (moveAsteroids dt c s) = running s"
  "spawn (moveAsteroids dt c s) = spawn s"
  "fireRate (moveAsteroids dt c s) = fireRate s"
  "spawnRate (moveAsteroids dt c s) = spawnRate s"
  "asteroidSpeed (moveAsteroids dt c s) = asteroidSpeed s"
  "shieldActive (moveAsteroids dt c s) = shieldActive s"
  "alerts (moveAsteroids dt c s) = alerts s"
  by (simp_all add: moveAsteroids_def)

lemma moveBoosters_fields:
  "player (moveBoosters dt c s) = player s"
  "bullets (moveBoosters dt c s) = bullets s"
  "asteroids (moveBoosters dt c s) = asteroids s"
  "score (moveBoosters dt c s) = score s"
  "running (moveBoosters dt c s) = running s"
  "spawn (moveBoosters dt c s) = spawn s"
  "fireRate (moveBoosters dt c s) = fireRate s"
  "spawnRate (moveBoosters dt c s) = spawnRate s"
  "asteroidSpeed (moveBoosters dt c s) = asteroidSpeed s"
  "shieldActive (moveBoosters dt c s) = shieldActive s"
  "alerts (moveBoosters dt c s) = alerts s"
  by (simp_all add: moveBoosters_def)

lemma bulletLoop_fields:
  "player (fst (bulletLoop i s)) = player s"
  "boosters (fst (bulletLoop i s)) = boosters s"
  "running (fst (bulletLoop i s)) = running s"
  "spawn (fst (bulletLoop i s)) = spawn s"
  "fireRate (fst (bulletLoop i s)) = fireRate s"
  "spawnRate (fst (bulletLoop i s)) = spawnRate s"
  "asteroidSpeed (fst (bulletLoop i s)) = asteroidSpeed s"
  "shieldActive (fst (bulletLoop i s)) = shieldActive s"
  "alerts (fst (bulletLoop i s)) = alerts s"
  by (simp_all add: bulletLoop_def Let_def split: option.split)

lemma shipCheck_fields:
  "player (shipCheck a s) = player s"
  "bullets (shipCheck a s) = bullets s"
  "asteroids (shipCheck a s) = asteroids s"
  "boosters (shipCheck a s) = boosters s"
  "score (shipCheck a s) = score s"
  "spawn (shipCheck a s) = spawn s"
  "fireRate (shipCheck a s) = fireRate s"
  "spawnRate (shipCheck a s) = spawnRate s"
  "asteroidSpeed (shipCheck a s) = asteroidSpeed s"
  "shieldActive (shipCheck a s) = shieldActive s"
  by (simp_all add: shipCheck_def)

lemma asteroidBody_eq: "asteroidBody i s = shipCheck (snd (bulletLoop i s)) (fst (bulletLoop i s))"
  by (simp add: asteroidBody_def split: prod.split)

lemma asteroidBody_fields:
  "player (asteroidBody i s) = player s"
  "boosters (asteroidBody i s) = boosters s"
  "spawn (asteroidBody i s) = spawn s"
  "fireRate (asteroidBody i s) = fireRate s"
  "spawnRate (asteroidBody i s) = spawnRate s"
  "asteroidSpeed (asteroidBody i s) = asteroidSpeed s"
  "shieldActive (asteroidBody i s) = shieldActive s"
  by (simp_all add: asteroidBody_eq shipCheck_fields bulletLoop_fields)

lemma asteroidLoop_fields:
  "player (asteroidLoop n s) = player s"
  "boosters (asteroidLoop n s) = boosters s"
  "spawn (asteroidLoop n s) = spawn s"
  "fireRate (asteroidLoop n s) = fireRate s"
  "spawnRate (asteroidLoop n s) = spawnRate s"
  "asteroidSpeed (asteroidLoop n s) = asteroidSpeed s"
  "shieldActive (asteroidLoop n s) = shieldActive s"
  by (induction n arbitrary: s; simp add: asteroidBody_fields)+

lemma applyBooster_fields:
  "player (applyBooster t s) = player s"
  "bullets (applyBooster t s) = bullets s"
  "asteroids (applyBooster t s) = asteroids s"
  "boosters (applyBooster t s) = boosters s"
  "running (applyBooster t s) = running s"
  "spawn (applyBooster t s) = spawn s"
  "spawnRate (applyBooster t s) = spawnRate s"
  "asteroidSpeed (applyBooster t s) = asteroidSpeed s"
  "alerts (applyBooster t s) = alerts s"
  by (simp_all add: applyBooster_def Let_def)

lemma boosterBody_fields:
  "player (boosterBody i s) = player s"
  "bullets (boosterBody i s) = bullets s"
  "asteroids (boosterBody i s) = asteroids s"
  "running (boosterBody i s) = running s"
  "spawn (boosterBody i s) = spawn s"
  "spawnRate (boosterBody i s) = spawnRate s"
  "asteroidSpeed (boosterBody i s) = asteroidSpeed s"
  "alerts (boosterBody i s) = alerts s"
  by (simp_all add: boosterBody_def Let_def applyBooster_fields split: option.split)

lemma boosterLoop_fields:
  "player (boosterLoop n s) = player s"
  "bullets (boosterLoop n s) = bullets s"
  "asteroids (boosterLoop n s) = asteroids s"
  "running (boosterLoop n s) = running s"
  "spawn (boosterLoop n s) = spawn s"
  "spawnRate (boosterLoop n s) = spawnRate s"
  "asteroidSpeed (boosterLoop n s) = asteroidSpeed s"
  "alerts (boosterLoop n s) = alerts s"
  by (induction n arbitrary: s; simp add: boosterBody_fields)+

lemma shieldDecay_fields:
  "player (shieldDecay dt s) = player s"
  "bullets (shieldDecay dt s) = bullets s"
  "asteroids (shieldDecay dt s) = asteroids s"
  "boosters (shieldDecay dt s) = boosters s"
  "score (shieldDecay dt s) = score s"
  "running (shieldDecay dt s) = running s"
  "spawn (shieldDecay dt s) = spawn s"
  "fireRate (shieldDecay dt s) = fireRate s"
  "spawnRate (shieldDecay dt s) = spawnRate s"
  "asteroidSpeed (shieldDecay dt s) = asteroidSpeed s"
  "alerts (shieldDecay dt s) = alerts s"
  by (simp_all add: shieldDecay_def Let_def)

section \<open>Unfolding the model on concrete values\<close>

lemmas stage_defs =
  update_def beforeCollisions_def movePlayer_def fire_def moveBullets_def
  spawnStage_def moveAsteroids_def moveBoosters_def collide_def pickup_def shieldDecay_def
  exceeds_def expired_def asteroidBody_def bulletLoop_def hit_def splice1_def shipCheck_def
  overlapsShip_def boosterBody_def applyBooster_def Let_def

lemmas spawn_defs = spawnAsteroid_def spawnBooster_def sidesOf_def typeAt_def

lemmas run_defs = initGame_def loop_def difficulty_def objectPrototypeNames_def

lemmas value_defs =
  midGame_def pageLoad_def rock_def pressFire_def shot_def noKeys_def demoCanvas_def
  far_def stray_def duel_def rockTurns_def

section \<open>The counters of calls and of waiting callbacks\<close>

lemma stage_counters:
  "rafQueue (movePlayer dt inp c s) = rafQueue s"
  "updates (movePlayer dt inp c s) = updates s"
  "draws (movePlayer dt inp c s) = draws s"
  "rafQueue (fire inp s) = rafQueue s"
  "updates (fire inp s) = updates s"
  "draws (fire inp s) = draws s"
  "rafQueue (moveBullets dt s) = rafQueue s"
  "updates (moveBullets dt s) = updates s"
  "draws (moveBullets dt s) = draws s"
  "rafQueue (moveAsteroids dt c s) = rafQueue s"
  "updates (moveAsteroids dt c s) = updates s"
  "draws (moveAsteroids dt c s) = draws s"
  "rafQueue (moveBoosters dt c s) = rafQueue s"
  "updates (moveBoosters dt c s) = updates s"
  "draws (moveBoosters dt c s) = draws s"
  "rafQueue (shieldDecay dt s) = rafQueue s"
  "updates (shieldDecay dt s) = updates s"
  "draws (shieldDecay dt s) = draws s"
  by (simp_all add: movePlayer_def fire_def moveBullets_def moveAsteroids_def moveBoosters_def
       shieldDecay_def Let_def)

lemma spawnStage_counters:
  "rafQueue (stateOf (spawnStage dt inp c s)) = rafQueue s
   \<and> updates (stateOf (spawnStage dt inp c s)) = updates s
   \<and> draws (stateOf (spawnStage dt inp c s)) = draws s"
  by (simp add: spawnStage_def spawnAsteroid_def spawnBooster_def Let_def
        split: option.split prod.split)

lemma asteroidBody_counters:
  "rafQueue (asteroidBody i s) = rafQueue s \<and> updates (asteroidBody i s) = updates s
   \<and> draws (asteroidBody i s) = draws s"
  by (simp add: asteroidBody_eq shipCheck_def bulletLoop_def Let_def split: option.split)

lemma asteroidLoop_counters:
  "rafQueue (asteroidLoop n s) = rafQueue s \<and> updates (asteroidLoop n s) = updates s
   \<and> draws (asteroidLoop n s) = draws s"
  by (induction n arbitrary: s) (simp_all add: asteroidBody_counters)

lemma boosterBody_counters:
  "rafQueue (boosterBody i s) = rafQueue s \<and> updates (boosterBody i s) = updates s
   \<and> draws (boosterBody i s) = draws s"
  by (simp add: boosterBody_def applyBooster_def Let_def split: option.split)

lemma boosterLoop_counters:
  "rafQueue (boosterLoop n s) = rafQueue s \<and> updates (boosterLoop n s) = updates s
   \<and> draws (boosterLoop n s) = draws s"
  by (induction n arbitrary: s) (simp_all add: boosterBody_counters)

lemma update_counters:
  "rafQueue (stateOf (update dt inp c s)) = rafQueue s
   \<and> updates (stateOf (update dt inp c s)) = updates s
   \<and> draws (stateOf (update dt inp c s)) = draws s"
proof -
  let ?m = "moveBullets dt (fire inp (movePlayer dt inp c s))"
  have b: "rafQueue (stateOf (beforeCollisions dt inp c s)) = rafQueue s
     \<and> updates (stateOf (beforeCollisions dt inp c s)) = updates s
     \<and> draws (stateOf (beforeCollisions dt inp c s)) = draws s"
    using spawnStage_counters[of dt inp c ?m]
    by (cases "spawnStage dt inp c ?m") (simp_all add: beforeCollisions_def stage_counters)
  show ?thesis
    using b
    by (cases "beforeCollisions dt inp c s")
       (simp_all add: update_def stage_counters pickup_def collide_def
          boosterLoop_counters asteroidLoop_counters)
qed

lemma update_isOk:
  assumes "asteroidSpeed s = Some v"
  shows "isOk (update dt inp c s)"
proof -
  let ?m = "moveBullets dt (fire inp (movePlayer dt inp c s))"
  have "asteroidSpeed ?m = Some v"
    using assms by (simp add: moveBullets_fields fire_fields movePlayer_fields)
  then have "isOk (spawnStage dt inp c ?m)"
    by (cases v) (simp add: spawnStage_def spawnAsteroid_def Let_def)
  then have "isOk (beforeCollisions dt inp c s)"
    by (cases "spawnStage dt inp c ?m") (simp_all add: beforeCollisions_def)
  then show ?thesis
    by (cases "beforeCollisions dt inp c s") (simp_all add: update_def)
qed

section \<open>The ship\<close>

lemma update_player:
  "player (stateOf (update dt inp c s)) = player (movePlayer dt inp c s)"
proof -
  let ?m = "moveBullets dt (fire inp (movePlayer dt inp c s))"
  have b: "player (stateOf (beforeCollisions dt inp c s)) = player (movePlayer dt inp c s)"
    using spawnStage_fields(1)[of dt inp c ?m]
    by (cases "spawnStage dt inp c ?m")
       (simp_all add: beforeCollisions_def moveBoosters_fields moveAsteroids_fields
          moveBullets_fields fire_fields)
  show ?thesis
    using b
    by (cases "beforeCollisions dt inp c s")
       (simp_all add: update_def shieldDecay_fields pickup_def collide_def
          boosterLoop_fields asteroidLoop_fields)
qed

lemma movePlayer_frame:
  "p_y (player (movePlayer dt inp c s)) = p_y (player s)"
  "p_w (player (movePlayer dt inp c s)) = p_w (player s)"
  "p_h (player (movePlayer dt inp c s)) = p_h (player s)"
  by (simp_all add: movePlayer_def Let_def)

lemma movePlayer_clamped:
  "20 + p_w (player s) \<le> width c \<Longrightarrow>
   10 \<le> p_x (player (movePlayer dt inp c s)) \<and>
   p_x (player (movePlayer dt inp c s)) \<le> width c - 10 - p_w (player s)"
  by (simp add: movePlayer_def Let_def)

lemma steps_frame:
  "p_y (player (stateOf (steps ts c s))) = p_y (player s) \<and>
   p_w (player (stateOf (steps ts c s))) = p_w (player s) \<and>
   p_h (player (stateOf (steps ts c s))) = p_h (player s)"
proof (induction ts arbitrary: s)
  case Nil
  show ?case by simp
next
  case (Cons t ts)
  obtain dt inp where t: "t = (dt, inp)" by (cases t)
  have u: "p_y (player (stateOf (update dt inp c s))) = p_y (player s) \<and>
           p_w (player (stateOf (update dt inp c s))) = p_w (player s) \<and>
           p_h (player (stateOf (update dt inp c s))) = p_h (player s)"
    by (simp add: update_player movePlayer_frame)
  show ?case
  proof (cases "update dt inp c s")
    case (Ok s')
    with u Cons.IH[of s'] show ?thesis by (simp add: t)
  next
    case (Throw e s')
    with u show ?thesis by (simp add: t)
  qed
qed

text \<open>Claim C10. A call of \<^verbatim>\<open>update\<close>, and so any sequence of calls, with any
  \<open>dt\<close> and any input, whether it returns or throws, leaves the ship's \<open>y\<close>, \<open>w\<close> and
  \<open>h\<close> as they were: of the ship's fields only \<open>x\<close> is written after \<^verbatim>\<open>initGame\<close>.\<close>

theorem ship_keeps_y_w_h:
  "p_y (player (stateOf (update dt inp c s))) = p_y (player s) \<and>
   p_w (player (stateOf (update dt inp c s))) = p_w (player s) \<and>
   p_h (player (stateOf (update dt inp c s))) = p_h (player s) \<and>
   p_y (player (stateOf (steps ts c s))) = p_y (player s) \<and>
   p_w (player (stateOf (steps ts c s))) = p_w (player s) \<and>
   p_h (player (stateOf (steps ts c s))) = p_h (player s)"
  using steps_frame[of ts c s] by (simp add: update_player movePlayer_frame)

lemma update_clamped:
  assumes "20 + p_w (player s) \<le> width c"
  shows "10 \<le> p_x (player (stateOf (update dt inp c s))) \<and>
         p_x (player (stateOf (update dt inp c s))) \<le> width c - 10 - p_w (player s)"
  using movePlayer_clamped[OF assms] by (simp add: update_player)

text \<open>Claim C4. After every call of \<^verbatim>\<open>update\<close> in a sequence of calls with arbitrary
  \<open>dt\<close> and input, the ship's \<open>x\<close> lies in \<open>[10, c.width - 10 - player.w]\<close>. The canvas
  is at least as wide as the ship and its two margins, so that the interval is not empty
  (the ship is 36 wide: 56 pixels). The statement is about every non-empty sequence, hence
  about the state after each step of a longer one.\<close>

theorem ship_x_within_bounds:
  assumes "ts \<noteq> []" and "20 + p_w (player s) \<le> width c"
  shows "10 \<le> p_x (player (stateOf (steps ts c s))) \<and>
         p_x (player (stateOf (steps ts c s)))
           \<le> width c - 10 - p_w (player (stateOf (steps ts c s)))"
proof -
  have "10 \<le> p_x (player (stateOf (steps ts c s))) \<and>
        p_x (player (stateOf (steps ts c s))) \<le> width c - 10 - p_w (player s)"
    using assms
  proof (induction ts arbitrary: s)
    case Nil
    then show ?case by simp
  next
    case (Cons t ts)
    obtain dt inp where t: "t = (dt, inp)" by (cases t)
    note u = update_clamped[OF Cons.prems(2), of dt inp]
    have w: "p_w (player (stateOf (update dt inp c s))) = p_w (player s)"
      by (simp add: update_player movePlayer_frame)
    show ?case
    proof (cases "update dt inp c s")
      case (Throw e s')
      with u show ?thesis by (simp add: t)
    next
      case (Ok s')
      show ?thesis
      proof (cases "ts = []")
        case True
        with u Ok show ?thesis by (simp add: t)
      next
        case False
        from w Ok Cons.prems(2) have "20 + p_w (player s') \<le> width c" by simp
        from Cons.IH[OF False this] w Ok show ?thesis by (simp add: t)
      qed
    qed
  qed
  then show ?thesis using steps_frame[of ts c s] by simp
qed

theorem ship_x_within_bounds_witness:
  "[(1/25, noKeys\<lparr>keyA := True\<rparr>), (1/25, noKeys\<lparr>keyD := True\<rparr>)] \<noteq> [] \<and>
   20 + p_w (player midGame) \<le> width demoCanvas \<and>
   10 \<le> p_x (player (stateOf (steps [(1/25, noKeys\<lparr>keyA := True\<rparr>), (1/25, noKeys\<lparr>keyD := True\<rparr>)] demoCanvas midGame))) \<and>
   p_x (player (stateOf (steps [(1/25, noKeys\<lparr>keyA := True\<rparr>), (1/25, noKeys\<lparr>keyD := True\<rparr>)] demoCanvas midGame)))
     \<le> width demoCanvas - 10 - p_w (player (stateOf (steps [(1/25, noKeys\<lparr>keyA := True\<rparr>), (1/25, noKeys\<lparr>keyD := True\<rparr>)] demoCanvas midGame)))"
proof -
  have h1: "[(1/25, noKeys\<lparr>keyA := True\<rparr>), (1/25, noKeys\<lparr>keyD := True\<rparr>)] \<noteq> []" by simp
  have h2: "20 + p_w (player midGame) \<le> width demoCanvas"
    by (simp add: midGame_def demoCanvas_def)
  show ?thesis using h1 h2 ship_x_within_bounds[OF h1 h2] by simp
qed

section \<open>The fire-rate booster\<close>

lemma applyBooster_fireRate:
  "fireRate (applyBooster ''fireRate'' s) = map_option (\<lambda>f. max 80 (f - 80)) (fireRate s)"
  by (simp add: applyBooster_def Let_def)

lemma applyBooster_fireRate_funpow:
  "fireRate ((applyBooster ''fireRate'' ^^ k) s)
     = map_option ((\<lambda>f. max 80 (f - 80)) ^^ k) (fireRate s)"
proof (induction k)
  case 0
  show ?case by (simp add: option.map_ident)
next
  case (Suc k)
  show ?case by (simp add: applyBooster_fireRate Suc.IH option.map_comp comp_def)
qed

lemma reduce_funpow:
  fixes B :: real
  assumes "80 \<le> B \<or> 0 < k"
  shows "((\<lambda>f. max 80 (f - 80)) ^^ k) B = max 80 (B - 80 * real k)"
  using assms
proof (induction k)
  case 0
  then show ?case by simp
next
  case (Suc k)
  show ?case
  proof (cases "k = 0")
    case True
    then show ?thesis by simp
  next
    case False
    with Suc.IH have "((\<lambda>f. max 80 (f - 80)) ^^ k) B = max 80 (B - 80 * real k)" by simp
    then show ?thesis by (simp add: max_def algebra_simps)
  qed
qed

lemma table_fireRate_ge_80: "difficulty d = Preset st \<Longrightarrow> 80 \<le> set_fireRate st"
  by (auto simp: difficulty_def split: if_splits)

text \<open>Claim C7. Applying the \<^verbatim>\<open>fireRate\<close> booster \<open>k\<close> times to a fire interval \<open>B\<close>
  leaves the interval \<open>max(80, B - 80 k)\<close>, which is never below 80. \<open>B\<close> is a base interval
  of at least 80 (every interval of the difficulty table is, by \<open>table_fireRate_ge_80\<close>), or
  the booster is applied at least once.\<close>

theorem fireRate_booster_saturates:
  assumes "fireRate s = Some B" and "80 \<le> B \<or> 0 < k"
  shows "fireRate ((applyBooster ''fireRate'' ^^ k) s) = Some (max 80 (B - 80 * real k))"
  using assms by (simp add: applyBooster_fireRate_funpow reduce_funpow)

theorem fireRate_booster_saturates_witness:
  "fireRate midGame = Some 250 \<and> ((80::real) \<le> 250 \<or> (0::nat) < 4) \<and>
   fireRate ((applyBooster ''fireRate'' ^^ 2) midGame) = Some 90 \<and>
   fireRate ((applyBooster ''fireRate'' ^^ 3) midGame) = Some 80 \<and>
   fireRate ((applyBooster ''fireRate'' ^^ 4) midGame) = Some 80"
proof -
  have h: "fireRate midGame = Some 250" by (simp add: midGame_def)
  show ?thesis
    using h fireRate_booster_saturates[OF h, of 2] fireRate_booster_saturates[OF h, of 3]
      fireRate_booster_saturates[OF h, of 4]
    by simp
qed

section \<open>The asteroid loop\<close>

lemma shipCheck_shielded: "shieldActive s \<Longrightarrow> shipCheck a s = s"
  by (simp add: shipCheck_def)

lemma shipCheck_running: "running (shipCheck a s) \<Longrightarrow> running s"
  by (simp add: shipCheck_def split: if_splits)

lemma shipCheck_overlap:
  "\<not> shieldActive s \<Longrightarrow> overlapsShip a (player s) \<Longrightarrow> \<not> running (shipCheck a s)"
  by (simp add: shipCheck_def)

lemma bulletLoop_position:
  "a_x (snd (bulletLoop i s)) = a_x (asteroids s ! i)"
  "a_y (snd (bulletLoop i s)) = a_y (asteroids s ! i)"
  "a_radius (snd (bulletLoop i s)) = a_radius (asteroids s ! i)"
  by (simp_all add: bulletLoop_def Let_def split: option.split)

lemma bulletLoop_overlaps:
  "overlapsShip (snd (bulletLoop i s)) p = overlapsShip (asteroids s ! i) p"
  by (simp add: overlapsShip_def bulletLoop_position)

lemma take_splice1: "i \<le> length xs \<Longrightarrow> take i (splice1 i xs) = take i xs"
  by (simp add: splice1_def)

lemma length_splice1: "i < length xs \<Longrightarrow> length (splice1 i xs) = length xs - 1"
  by (simp add: splice1_def)

lemma bulletLoop_take:
  "i < length (asteroids s) \<Longrightarrow> take i (asteroids (fst (bulletLoop i s))) = take i (asteroids s)"
  by (simp add: bulletLoop_def Let_def take_splice1 split: option.split)

lemma bulletLoop_length:
  "i < length (asteroids s) \<Longrightarrow> i \<le> length (asteroids (fst (bulletLoop i s)))"
  by (auto simp: bulletLoop_def Let_def length_splice1 split: option.split)

lemma asteroidBody_take:
  "i < length (asteroids s) \<Longrightarrow> take i (asteroids (asteroidBody i s)) = take i (asteroids s)"
  by (simp add: asteroidBody_eq shipCheck_fields bulletLoop_take)

lemma asteroidBody_length:
  "i < length (asteroids s) \<Longrightarrow> i \<le> length (asteroids (asteroidBody i s))"
  by (simp add: asteroidBody_eq shipCheck_fields bulletLoop_length)

lemma asteroidBody_running: "running (asteroidBody i s) \<Longrightarrow> running s"
  using shipCheck_running[of "snd (bulletLoop i s)" "fst (bulletLoop i s)"]
  by (simp add: asteroidBody_eq bulletLoop_fields)

lemma asteroidLoop_running: "running (asteroidLoop n s) \<Longrightarrow> running s"
  by (induction n arbitrary: s) (auto dest: asteroidBody_running)

lemma asteroidBody_shielded:
  "shieldActive s \<Longrightarrow> running (asteroidBody i s) = running s \<and> alerts (asteroidBody i s) = alerts s"
  by (simp add: asteroidBody_eq shipCheck_shielded bulletLoop_fields)

lemma asteroidLoop_shielded:
  "shieldActive s \<Longrightarrow> running (asteroidLoop n s) = running s \<and> alerts (asteroidLoop n s) = alerts s"
proof (induction n arbitrary: s)
  case 0
  show ?case by simp
next
  case (Suc n)
  from Suc.prems have "shieldActive (asteroidBody n s)" by (simp add: asteroidBody_fields)
  from Suc.IH[OF this] asteroidBody_shielded[OF Suc.prems, of n] show ?case by simp
qed

lemma asteroidBody_overlap:
  assumes "\<not> shieldActive s" and "overlapsShip (asteroids s ! i) (player s)"
  shows "\<not> running (asteroidBody i s)"
proof -
  have "\<not> shieldActive (fst (bulletLoop i s))" using assms(1) by (simp add: bulletLoop_fields)
  moreover have "overlapsShip (snd (bulletLoop i s)) (player (fst (bulletLoop i s)))"
    using assms(2) by (simp add: bulletLoop_overlaps bulletLoop_fields)
  ultimately show ?thesis by (simp add: asteroidBody_eq shipCheck_overlap)
qed

lemma asteroidLoop_overlap:
  assumes "n \<le> length (asteroids s)" and "\<not> shieldActive s"
    and "a \<in> set (take n (asteroids s))" and "overlapsShip a (player s)"
  shows "\<not> running (asteroidLoop n s)"
  using assms
proof (induction n arbitrary: s)
  case 0
  then show ?case by simp
next
  case (Suc n)
  from Suc.prems(1) have lt: "n < length (asteroids s)" by simp
  show ?case
  proof (cases "a = asteroids s ! n")
    case True
    with Suc.prems have "\<not> running (asteroidBody n s)" by (simp add: asteroidBody_overlap)
    then show ?thesis using asteroidLoop_running[of n "asteroidBody n s"] by auto
  next
    case False
    with Suc.prems(3) lt have "a \<in> set (take n (asteroids s))"
      by (simp add: take_Suc_conv_app_nth)
    then have f3: "a \<in> set (take n (asteroids (asteroidBody n s)))"
      by (simp add: asteroidBody_take[OF lt])
    have f1: "n \<le> length (asteroids (asteroidBody n s))" by (rule asteroidBody_length[OF lt])
    have f2: "\<not> shieldActive (asteroidBody n s)" using Suc.prems(2) by (simp add: asteroidBody_fields)
    have f4: "overlapsShip a (player (asteroidBody n s))" using Suc.prems(4) by (simp add: asteroidBody_fields)
    have "\<not> running (asteroidLoop n (asteroidBody n s))" by (rule Suc.IH[OF f1 f2 f3 f4])
    then show ?thesis by simp
  qed
qed

lemma collide_overlap:
  "\<not> shieldActive s \<Longrightarrow> a \<in> set (asteroids s) \<Longrightarrow> overlapsShip a (player s)
     \<Longrightarrow> \<not> running (collide s)"
  using asteroidLoop_overlap[of "length (asteroids s)" s a] by (simp add: collide_def)

lemma boosterBody_length:
  "i < length (boosters s) \<Longrightarrow> i \<le> length (boosters (boosterBody i s))"
  by (auto simp: boosterBody_def Let_def applyBooster_fields length_splice1 split: option.split)

section \<open>The shield\<close>

lemma beforeCollisions_fields:
  "shieldActive (stateOf (beforeCollisions dt inp c s)) = shieldActive s"
  "running (stateOf (beforeCollisions dt inp c s)) = running s"
  "alerts (stateOf (beforeCollisions dt inp c s)) = alerts s"
proof -
  let ?m = "moveBullets dt (fire inp (movePlayer dt inp c s))"
  note f = spawnStage_fields[of dt inp c ?m]
  show "shieldActive (stateOf (beforeCollisions dt inp c s)) = shieldActive s"
    using f(8) by (cases "spawnStage dt inp c ?m")
       (simp_all add: beforeCollisions_def moveBoosters_fields moveAsteroids_fields
          moveBullets_fields fire_fields movePlayer_fields)
  show "running (stateOf (beforeCollisions dt inp c s)) = running s"
    using f(4) by (cases "spawnStage dt inp c ?m")
       (simp_all add: beforeCollisions_def moveBoosters_fields moveAsteroids_fields
          moveBullets_fields fire_fields movePlayer_fields)
  show "alerts (stateOf (beforeCollisions dt inp c s)) = alerts s"
    using f(9) by (cases "spawnStage dt inp c ?m")
       (simp_all add: beforeCollisions_def moveBoosters_fields moveAsteroids_fields
          moveBullets_fields fire_fields movePlayer_fields)
qed

lemma update_Ok: "beforeCollisions dt inp c s = Ok t \<Longrightarrow>
   update dt inp c s = Ok (shieldDecay dt (pickup (collide t)))"
  by (simp add: update_def)

lemma update_Throw: "beforeCollisions dt inp c s = Throw e t \<Longrightarrow> update dt inp c s = Throw e t"
  by (simp add: update_def)

text \<open>Claim C6. With the shield active when \<^verbatim>\<open>update\<close> is called, the call leaves the
  running flag as it was and raises no alert, whatever overlaps the ship. With the shield
  inactive, if an asteroid that the asteroid loop finds in the array (\<open>t\<close> holds the variables
  at line 202, after this tick's moves) has its centre within its radius of the ship's centre
  on both axes, the call returns with the running flag false.\<close>

theorem shield_decides_collision:
  "(shieldActive s \<longrightarrow>
      running (stateOf (update dt inp c s)) = running s \<and>
      alerts (stateOf (update dt inp c s)) = alerts s) \<and>
   (\<not> shieldActive s \<and> beforeCollisions dt inp c s = Ok t \<and>
      a \<in> set (asteroids t) \<and> overlapsShip a (player t) \<longrightarrow>
      isOk (update dt inp c s) \<and> \<not> running (stateOf (update dt inp c s)))"
proof (intro conjI impI)
  assume sh: "shieldActive s"
  note b = beforeCollisions_fields[of dt inp c s]
  show "running (stateOf (update dt inp c s)) = running s"
  proof (cases "beforeCollisions dt inp c s")
    case (Ok t)
    with b sh have "shieldActive t" "running t = running s" by simp_all
    with asteroidLoop_shielded[of t "length (asteroids t)"] show ?thesis
      by (simp add: update_Ok[OF Ok] shieldDecay_fields pickup_def boosterLoop_fields collide_def)
  next
    case (Throw e t)
    with b show ?thesis by (simp add: update_Throw[OF Throw])
  qed
  show "alerts (stateOf (update dt inp c s)) = alerts s"
  proof (cases "beforeCollisions dt inp c s")
    case (Ok t)
    with b sh have "shieldActive t" "alerts t = alerts s" by simp_all
    with asteroidLoop_shielded[of t "length (asteroids t)"] show ?thesis
      by (simp add: update_Ok[OF Ok] shieldDecay_fields pickup_def boosterLoop_fields collide_def)
  next
    case (Throw e t)
    with b show ?thesis by (simp add: update_Throw[OF Throw])
  qed
next
  assume h: "\<not> shieldActive s \<and> beforeCollisions dt inp c s = Ok t \<and>
      a \<in> set (asteroids t) \<and> overlapsShip a (player t)"
  then have ok: "beforeCollisions dt inp c s = Ok t" by simp
  from h beforeCollisions_fields(1)[of dt inp c s] have "\<not> shieldActive t" by simp
  with h collide_overlap[of t a] have "\<not> running (collide t)" by simp
  then show "\<not> running (stateOf (update dt inp c s))"
    by (simp add: update_Ok[OF ok] shieldDecay_fields pickup_def boosterLoop_fields)
  show "isOk (update dt inp c s)" by (simp add: update_Ok[OF ok])
qed

theorem shield_decides_collision_witness:
  "shieldActive (midGame\<lparr>asteroids := [rock], shieldActive := True, shieldTimer := 3\<rparr>) \<and>
   running (stateOf (update (1/50) noKeys demoCanvas
              (midGame\<lparr>asteroids := [rock], shieldActive := True, shieldTimer := 3\<rparr>))) \<and>
   alerts (stateOf (update (1/50) noKeys demoCanvas
              (midGame\<lparr>asteroids := [rock], shieldActive := True, shieldTimer := 3\<rparr>))) = [] \<and>
   \<not> shieldActive (midGame\<lparr>asteroids := [rock]\<rparr>) \<and>
   beforeCollisions (1/50) noKeys demoCanvas (midGame\<lparr>asteroids := [rock]\<rparr>)
     = Ok (midGame\<lparr>asteroids := [rock\<lparr>a_y := 576\<rparr>], spawn := Some (49/50)\<rparr>) \<and>
   rock\<lparr>a_y := 576\<rparr> \<in> set (asteroids (midGame\<lparr>asteroids := [rock\<lparr>a_y := 576\<rparr>], spawn := Some (49/50)\<rparr>)) \<and>
   overlapsShip (rock\<lparr>a_y := 576\<rparr>) (player (midGame\<lparr>asteroids := [rock\<lparr>a_y := 576\<rparr>], spawn := Some (49/50)\<rparr>)) \<and>
   isOk (update (1/50) noKeys demoCanvas (midGame\<lparr>asteroids := [rock]\<rparr>)) \<and>
   \<not> running (stateOf (update (1/50) noKeys demoCanvas (midGame\<lparr>asteroids := [rock]\<rparr>)))"
proof -
  let ?sh = "midGame\<lparr>asteroids := [rock], shieldActive := True, shieldTimer := 3\<rparr>"
  let ?s = "midGame\<lparr>asteroids := [rock]\<rparr>"
  let ?t = "midGame\<lparr>asteroids := [rock\<lparr>a_y := 576\<rparr>], spawn := Some (49/50)\<rparr>"
  have h1: "shieldActive ?sh" by simp
  have r: "running ?sh" "alerts ?sh = []" by (simp_all add: midGame_def)
  have h2: "\<not> shieldActive ?s" by (simp add: midGame_def)
  have h3: "beforeCollisions (1/50) noKeys demoCanvas ?s = Ok ?t"
    by (simp add: stage_defs value_defs)
  have h4: "rock\<lparr>a_y := 576\<rparr> \<in> set (asteroids ?t)" by simp
  have h5: "overlapsShip (rock\<lparr>a_y := 576\<rparr>) (player ?t)"
    by (simp add: overlapsShip_def value_defs)
  from shield_decides_collision[of ?sh "1/50" noKeys demoCanvas] h1 r
    shield_decides_collision[of ?s "1/50" noKeys demoCanvas ?t "rock\<lparr>a_y := 576\<rparr>"] h2 h3 h4 h5
  show ?thesis by simp
qed

section \<open>Two collisions in one tick\<close>

text \<open>Claim C2. The claim is that an asteroid whose hit-points reach zero in a tick is not
  tested against the ship and cannot end the run in that tick. The code, at this input, does
  otherwise: the loop tests the object \<^verbatim>\<open>a\<close> that it still holds after
  \<^verbatim>\<open>asteroids.splice(i, 1)\<close>. The ship fires at an asteroid with one hit-point whose centre
  is within its radius of the ship's centre; within the one tick the bullet destroys the
  asteroid, the score goes from 0 to 10, and the destroyed asteroid ends the run with an alert
  that shows 10.\<close>

theorem destroyed_asteroid_ends_run:
  "a_hp rock = 1 \<and>
   asteroids (stateOf (update (1/50) pressFire demoCanvas (midGame\<lparr>asteroids := [rock]\<rparr>))) = [] \<and>
   score (stateOf (update (1/50) pressFire demoCanvas (midGame\<lparr>asteroids := [rock]\<rparr>))) = 10 \<and>
   running (midGame\<lparr>asteroids := [rock]\<rparr>) \<and>
   \<not> running (stateOf (update (1/50) pressFire demoCanvas (midGame\<lparr>asteroids := [rock]\<rparr>))) \<and>
   alerts (stateOf (update (1/50) pressFire demoCanvas (midGame\<lparr>asteroids := [rock]\<rparr>))) = [10]"
  by (simp add: stage_defs value_defs)

text \<open>Claim C1. The claim is that the alert with the final score is raised once per run.
  The code, at this input, does otherwise: the loop goes on after it has set
  \<^verbatim>\<open>running = false\<close>. Two asteroids overlap the ship in the same tick; the one at index 1
  raises an alert that shows the score 0, then the one at index 0 is destroyed by the bullet,
  the score becomes 10, and it raises a second alert that shows 10.\<close>

theorem two_alerts_in_one_tick:
  "alerts (midGame\<lparr>asteroids := [rock, rock\<lparr>a_x := 250, a_y := 585, a_hp := 2\<rparr>]\<rparr>) = [] \<and>
   alerts (stateOf (update (1/50) pressFire demoCanvas
      (midGame\<lparr>asteroids := [rock, rock\<lparr>a_x := 250, a_y := 585, a_hp := 2\<rparr>]\<rparr>))) = [0, 10] \<and>
   score (stateOf (update (1/50) pressFire demoCanvas
      (midGame\<lparr>asteroids := [rock, rock\<lparr>a_x := 250, a_y := 585, a_hp := 2\<rparr>]\<rparr>))) = 10"
  by (simp add: stage_defs value_defs)

section \<open>Hits\<close>


lemma findHit_Some: "findHit a bs n = Some j \<Longrightarrow> j < n \<and> hit a (bs ! j)"
  by (induction n) (auto split: if_splits)



lemma collide_none: "asteroids s = [] \<Longrightarrow> collide s = s"
  by (simp add: collide_def)







lemma spawned_hp_ge_2:
  assumes "0 \<le> rnd 1" and "spawnAsteroid rnd c s = Ok t"
  shows "2 \<le> a_hp (last (asteroids t))"
proof -
  have "(3::real) / 2 \<le> (15 + rnd 1 * 30) / 10" using assms(1) by simp
  then have "\<lceil>(3::real) / 2\<rceil> \<le> \<lceil>(15 + rnd 1 * 30) / 10\<rceil>" by (rule ceiling_mono)
  moreover have "\<lceil>(3::real) / 2\<rceil> = 2" by simp
  ultimately have "2 \<le> \<lceil>(15 + rnd 1 * 30) / 10\<rceil>" by simp
  with assms(2) show ?thesis
    by (auto simp: spawnAsteroid_def Let_def split: option.splits prod.splits)
qed


















section \<open>The spawn timer\<close>















section \<open>Starting a run\<close>

lemma difficulty_unknown:
  "diff \<notin> {''easy'', ''medium'', ''hard''} \<Longrightarrow> diff \<notin> set objectPrototypeNames
     \<Longrightarrow> difficulty diff = Undefined"
  by (simp add: difficulty_def)

text \<open>Claim C9, amended. Starting or restarting a run with an identifier that is neither
  \<^verbatim>\<open>easy\<close>, \<^verbatim>\<open>medium\<close> or \<^verbatim>\<open>hard\<close> nor the name of a member of
  \<^verbatim>\<open>Object.prototype\<close> fails fast: \<^verbatim>\<open>initGame\<close> throws a \<^verbatim>\<open>TypeError\<close> at
  \<^verbatim>\<open>set.fireRate\<close>, before it assigns any difficulty parameter or the running flag and
  before it calls \<^verbatim>\<open>loop\<close>. The running flag is as it was after Start and false after
  Restart, no \<^verbatim>\<open>update\<close> or \<^verbatim>\<open>draw\<close> has run and no frame is requested.\<close>

theorem unknown_difficulty_rejected:
  assumes "diff \<notin> {''easy'', ''medium'', ''hard''}" and "diff \<notin> set objectPrototypeNames"
  shows "(\<exists>t. initGame diff now inp c s = Throw TypeError t
              \<and> running t = running s
              \<and> fireRate t = fireRate s \<and> spawnRate t = spawnRate s
              \<and> asteroidSpeed t = asteroidSpeed s
              \<and> updates t = updates s \<and> draws t = draws s \<and> rafQueue t = rafQueue s)
       \<and> running (handle c (ClickStart diff now inp) s) = running s
       \<and> \<not> running (handle c (ClickRestart diff now inp) s)"
  using difficulty_unknown[OF assms] by (simp add: initGame_def)

theorem unknown_difficulty_rejected_witness:
  "''insane'' \<notin> {''easy'', ''medium'', ''hard''} \<and> ''insane'' \<notin> set objectPrototypeNames \<and>
   (\<exists>t. initGame ''insane'' 1000 noKeys demoCanvas (pageLoad 0) = Throw TypeError t
              \<and> running t = running (pageLoad 0)
              \<and> fireRate t = fireRate (pageLoad 0) \<and> spawnRate t = spawnRate (pageLoad 0)
              \<and> asteroidSpeed t = asteroidSpeed (pageLoad 0)
              \<and> updates t = updates (pageLoad 0) \<and> draws t = draws (pageLoad 0)
              \<and> rafQueue t = rafQueue (pageLoad 0)) \<and>
   \<not> running (handle demoCanvas (ClickStart ''insane'' 1000 noKeys) (pageLoad 0))"
proof -
  have h1: "''insane'' \<notin> {''easy'', ''medium'', ''hard''}" by simp
  have h2: "''insane'' \<notin> set objectPrototypeNames" by (simp add: objectPrototypeNames_def)
  have r: "\<not> running (pageLoad 0)" by (simp add: pageLoad_def)
  from unknown_difficulty_rejected[OF h1 h2, of 1000 noKeys demoCanvas "pageLoad 0"] h1 h2 r
  show ?thesis by simp
qed

text \<open>Claim C9, as stated, fails for a name that the table inherits: \<^verbatim>\<open>difficulty["toString"]\<close>
  is a function, its settings are \<^verbatim>\<open>undefined\<close>, and \<^verbatim>\<open>initGame\<close> sets the running flag
  and enters the first tick, where \<^verbatim>\<open>spawnAsteroid\<close> throws on \<^verbatim>\<open>asteroidSpeed[0]\<close>.\<close>

theorem inherited_name_starts_run:
  "''toString'' \<notin> {''easy'', ''medium'', ''hard''} \<and>
   \<not> running (pageLoad 0) \<and>
   running (handle demoCanvas (ClickStart ''toString'' 1000 noKeys) (pageLoad 0)) \<and>
   fireRate (handle demoCanvas (ClickStart ''toString'' 1000 noKeys) (pageLoad 0)) = None \<and>
   updates (handle demoCanvas (ClickStart ''toString'' 1000 noKeys) (pageLoad 0)) = 1 \<and>
   \<not> isOk (initGame ''toString'' 1000 noKeys demoCanvas (pageLoad 0))"
  by (simp add: run_defs stage_defs spawn_defs value_defs)

section \<open>Frames\<close>

lemma stopped_frame_does_nothing:
  assumes "\<not> running s"
  shows "updates (handle c (AnimationFrame now inp) s) = updates s
       \<and> draws (handle c (AnimationFrame now inp) s) = draws s
       \<and> alerts (handle c (AnimationFrame now inp) s) = alerts s
       \<and> rafQueue (handle c (AnimationFrame now inp) s) = 0"
proof -
  have "\<not> running t \<Longrightarrow> rafQueue t = 0 \<Longrightarrow>
          updates (runCallbacks n now inp c t) = updates t
          \<and> draws (runCallbacks n now inp c t) = draws t
          \<and> alerts (runCallbacks n now inp c t) = alerts t
          \<and> rafQueue (runCallbacks n now inp c t) = 0" for n t
    by (induction n arbitrary: t) (simp_all add: loop_def Let_def)
  from this[of "s\<lparr>rafQueue := 0\<rparr>" "rafQueue s"] assms show ?thesis by simp
qed

text \<open>A click on Restart with a difficulty of the table adds a waiting callback and cancels
  none: a callback that was already waiting stays, and \<^verbatim>\<open>initGame\<close> has set the running
  flag again before it runs.\<close>

lemma restart_adds_a_callback:
  assumes "difficulty diff = Preset st"
  shows "rafQueue (handle c (ClickRestart diff now inp) s) = rafQueue s + 1"
proof -
  let ?s0 = "s\<lparr>running := False,
                 player := \<lparr>p_x = width c / 2, p_y = height c - 60, p_w = 36, p_h = 28\<rparr>,
                 bullets := [], asteroids := [], boosters := [],
                 score := 0, spawn := Some 0, lastShot := 0,
                 shieldActive := False, shieldTimer := 0,
                 scoreEl := 0,
                 fireRate := Some (set_fireRate st), spawnRate := Some (set_spawnRate st),
                 asteroidSpeed := Some (set_asteroidSpeed st), running := True,
                 last_ts := now, updates := updates s + 1\<rparr>"
  let ?dt = "min 0.04 ((now - last_ts s) / 1000)"
  have ok: "isOk (update ?dt inp c ?s0)" by (rule update_isOk) simp
  have q: "rafQueue (stateOf (update ?dt inp c ?s0)) = rafQueue s"
    using update_counters[of ?dt inp c ?s0] by simp
  show ?thesis
    using ok q assms
    by (cases "update ?dt inp c ?s0") (simp_all add: initGame_def loop_def Let_def)
qed

text \<open>Claim C8. The claim is that the frame chain scheduled before a restart runs no
  further \<^verbatim>\<open>update\<close> or \<^verbatim>\<open>draw\<close>, and that after a restart one chain calls
  \<^verbatim>\<open>update\<close> once per frame. The code, at this input, does otherwise: the restart listener
  sets \<^verbatim>\<open>running = false\<close> and \<^verbatim>\<open>initGame\<close> sets it
  back to true before the waiting callback of the old chain has looked at it. Here a run is
  started and one frame passes (one callback waiting, 2 updates so far); Restart then leaves two
  callbacks waiting, and the next frame calls \<^verbatim>\<open>update\<close> and \<^verbatim>\<open>draw\<close> twice and leaves
  two callbacks waiting again.\<close>

theorem restart_doubles_the_frame_chain:
  "rafQueue (handleAll demoCanvas
      [ClickStart ''easy'' 1000 noKeys, AnimationFrame 1016 noKeys] (pageLoad 0)) = 1 \<and>
   updates (handleAll demoCanvas
      [ClickStart ''easy'' 1000 noKeys, AnimationFrame 1016 noKeys] (pageLoad 0)) = 2 \<and>
   rafQueue (handleAll demoCanvas
      [ClickStart ''easy'' 1000 noKeys, AnimationFrame 1016 noKeys,
       ClickRestart ''easy'' 1020 noKeys] (pageLoad 0)) = 2 \<and>
   updates (handleAll demoCanvas
      [ClickStart ''easy'' 1000 noKeys, AnimationFrame 1016 noKeys,
       ClickRestart ''easy'' 1020 noKeys] (pageLoad 0)) = 3 \<and>
   updates (handleAll demoCanvas
      [ClickStart ''easy'' 1000 noKeys, AnimationFrame 1016 noKeys,
       ClickRestart ''easy'' 1020 noKeys, AnimationFrame 1032 noKeys] (pageLoad 0)) = 5 \<and>
   draws (handleAll demoCanvas
      [ClickStart ''easy'' 1000 noKeys, AnimationFrame 1016 noKeys,
       ClickRestart ''easy'' 1020 noKeys, AnimationFrame 1032 noKeys] (pageLoad 0)) = 5 \<and>
   rafQueue (handleAll demoCanvas
      [ClickStart ''easy'' 1000 noKeys, AnimationFrame 1016 noKeys,
       ClickRestart ''easy'' 1020 noKeys, AnimationFrame 1032 noKeys] (pageLoad 0)) = 2"
  by (simp add: run_defs stage_defs spawn_defs value_defs)

end
